theory Spec2Isabelle
  imports Complex_Main
begin

unbundle bit_operations_syntax

section \<open>JavaScript values\<close>

text \<open>
  A JavaScript string is modelled as a \<open>string\<close> whose characters are the code units
  below 256. A JavaScript number is a real number or one of the three special values;
  rounding of doubles, overflow, underflow and the sign of zero are not modelled.
\<close>

datatype number = Num real | PosInfinity | NegInfinity | NaN

text \<open>The \<^verbatim>\<open>*\<close> operator.\<close>

fun mul :: "number \<Rightarrow> number \<Rightarrow> number" where
  "mul NaN _ = NaN"
| "mul _ NaN = NaN"
| "mul (Num x) (Num y) = Num (x * y)"
| "mul (Num x) PosInfinity = (if x = 0 then NaN else if 0 < x then PosInfinity else NegInfinity)"
| "mul (Num x) NegInfinity = (if x = 0 then NaN else if 0 < x then NegInfinity else PosInfinity)"
| "mul PosInfinity (Num y) = (if y = 0 then NaN else if 0 < y then PosInfinity else NegInfinity)"
| "mul NegInfinity (Num y) = (if y = 0 then NaN else if 0 < y then NegInfinity else PosInfinity)"
| "mul PosInfinity PosInfinity = PosInfinity"
| "mul PosInfinity NegInfinity = NegInfinity"
| "mul NegInfinity PosInfinity = NegInfinity"
| "mul NegInfinity NegInfinity = PosInfinity"

text \<open>Unary minus.\<close>

fun neg :: "number \<Rightarrow> number" where
  "neg (Num x) = Num (- x)"
| "neg PosInfinity = NegInfinity"
| "neg NegInfinity = PosInfinity"
| "neg NaN = NaN"

definition isNaN :: "number \<Rightarrow> bool" where
  "isNaN x = (x = NaN)"

text \<open>\<^verbatim>\<open>x <= 0\<close>: false when \<open>x\<close> is NaN.\<close>

fun le_zero :: "number \<Rightarrow> bool" where
  "le_zero (Num x) = (x \<le> 0)"
| "le_zero PosInfinity = False"
| "le_zero NegInfinity = True"
| "le_zero NaN = False"

subsection \<open>Characters and strings\<close>

definition code :: "char \<Rightarrow> nat" where
  "code c = of_char c"

text \<open>White space and line terminators, as \<^verbatim>\<open>trim\<close>, \<^verbatim>\<open>\s\<close> and \<^verbatim>\<open>parseFloat\<close> see them.\<close>

definition isWhiteSpace :: "char \<Rightarrow> bool" where
  "isWhiteSpace c = (code c \<in> {9, 10, 11, 12, 13, 32, 160})"

definition isDigit :: "char \<Rightarrow> bool" where
  "isDigit c = (48 \<le> code c \<and> code c \<le> 57)"

definition trim :: "string \<Rightarrow> string" where
  "trim s = rev (dropWhile isWhiteSpace (rev (dropWhile isWhiteSpace s)))"

definition startsWith :: "string \<Rightarrow> string \<Rightarrow> bool" where
  "startsWith s p = (take (length p) s = p)"

definition toLowerCase_char :: "char \<Rightarrow> char" where
  "toLowerCase_char c =
     (let n = code c in
      if (65 \<le> n \<and> n \<le> 90) \<or> (192 \<le> n \<and> n \<le> 222 \<and> n \<noteq> 215)
      then char_of (n + 32) else c)"

definition toLowerCase :: "string \<Rightarrow> string" where
  "toLowerCase s = map toLowerCase_char s"

text \<open>\<^verbatim>\<open>s.split(sep)\<close> for a one-character separator: the empty string gives one empty piece.\<close>

fun split :: "char \<Rightarrow> string \<Rightarrow> string list" where
  "split sep [] = [[]]"
| "split sep (c # cs) =
     (if c = sep then [] # split sep cs
      else (case split sep cs of p # ps \<Rightarrow> (c # p) # ps | [] \<Rightarrow> [[c]]))"

text \<open>\<^verbatim>\<open>s.indexOf(c)\<close>; \<open>None\<close> stands for -1.\<close>

fun indexOf :: "string \<Rightarrow> char \<Rightarrow> nat option" where
  "indexOf [] c = None"
| "indexOf (x # xs) c = (if x = c then Some 0 else map_option Suc (indexOf xs c))"

text \<open>Decimal digits to a number and back (\<^verbatim>\<open>parseInt\<close> on digits, number to string).\<close>

definition digitValue :: "char \<Rightarrow> nat" where
  "digitValue c = code c - 48"

definition parseDigits :: "string \<Rightarrow> nat" where
  "parseDigits ds = foldl (\<lambda>acc c. 10 * acc + digitValue c) 0 ds"

definition digitChar :: "nat \<Rightarrow> char" where
  "digitChar n = char_of (48 + n)"

function toString :: "nat \<Rightarrow> string" where
  "toString n = (if n < 10 then [digitChar n] else toString (n div 10) @ [digitChar (n mod 10)])"
  by pat_completeness auto
termination
  by (relation "measure id") auto

declare toString.simps [simp del]

text \<open>
  \<^verbatim>\<open>parseFloat\<close>: leading white space is skipped, then the longest prefix that is a
  decimal literal is read; NaN when there is none.
\<close>

definition parseExponent :: "string \<Rightarrow> int" where
  "parseExponent r =
     (case r of
        [] \<Rightarrow> 0
      | c # r1 \<Rightarrow>
          if c = CHR ''e'' \<or> c = CHR ''E'' then
            (case r1 of
               [] \<Rightarrow> 0
             | s # r2 \<Rightarrow>
                 if s = CHR ''+'' then int (parseDigits (takeWhile isDigit r2))
                 else if s = CHR ''-'' then - int (parseDigits (takeWhile isDigit r2))
                 else int (parseDigits (takeWhile isDigit r1)))
          else 0)"

definition scale10 :: "real \<Rightarrow> int \<Rightarrow> real" where
  "scale10 m e = (if 0 \<le> e then m * 10 ^ nat e else m / 10 ^ nat (- e))"

definition parseUnsigned :: "string \<Rightarrow> number" where
  "parseUnsigned r =
     (if startsWith r ''Infinity'' then PosInfinity
      else
        let ip = takeWhile isDigit r;
            r1 = drop (length ip) r;
            hasDot = (r1 \<noteq> [] \<and> hd r1 = CHR ''.'');
            fp = (if hasDot then takeWhile isDigit (tl r1) else []);
            r2 = (if hasDot then drop (length fp) (tl r1) else r1)
        in if ip = [] \<and> fp = [] then NaN
           else Num (scale10 (real (parseDigits ip) + real (parseDigits fp) / 10 ^ length fp)
                       (parseExponent r2)))"

definition parseFloat :: "string \<Rightarrow> number" where
  "parseFloat s =
     (case dropWhile isWhiteSpace s of
        [] \<Rightarrow> NaN
      | c # r \<Rightarrow>
          if c = CHR ''+'' then parseUnsigned r
          else if c = CHR ''-'' then neg (parseUnsigned r)
          else parseUnsigned (c # r))"

section \<open>Tuning engine\<close>

text \<open>
  An \<^verbatim>\<open>Error\<close> that is thrown is the left summand, carrying its message.
\<close>

type_synonym error = string

text \<open>
  The table \<^verbatim>\<open>PythagoreanTuning.intervals\<close>: own properties only (names inherited from
  the object prototype, such as \<^verbatim>\<open>constructor\<close>, are outside this model).
\<close>

definition intervals_table :: "(string \<times> real) list" where
  "intervals_table =
     [(''1'', 1/1), (''b2'', 256/243), (''2'', 9/8), (''b3'', 32/27), (''3'', 81/64),
      (''4'', 4/3), (''#4'', 729/512), (''b5'', 729/512), (''5'', 3/2), (''b6'', 128/81),
      (''6'', 27/16), (''b7'', 16/9), (''7'', 243/128), (''8'', 2/1)]"

definition intervals :: "string \<rightharpoonup> real" where
  "intervals = map_of intervals_table"

definition noteToSemitone_table :: "(string \<times> int) list" where
  "noteToSemitone_table =
     [(''C'', -9), (''C#'', -8), (''Db'', -8),
      (''D'', -7), (''D#'', -6), (''Eb'', -6),
      (''E'', -5),
      (''F'', -4), (''F#'', -3), (''Gb'', -3),
      (''G'', -2), (''G#'', -1), (''Ab'', -1),
      (''A'', 0), (''A#'', 1), (''Bb'', 1),
      (''B'', 2)]"

definition noteToSemitone :: "string \<rightharpoonup> int" where
  "noteToSemitone = map_of noteToSemitone_table"

text \<open>The regular expression \<^verbatim>\<open>/^([A-G][#b]?)(-?\d+)$/\<close>: the two groups, if it matches.\<close>

definition matchNote :: "string \<Rightarrow> (string \<times> string) option" where
  "matchNote s =
     (case s of
        [] \<Rightarrow> None
      | l # r \<Rightarrow>
          if 65 \<le> code l \<and> code l \<le> 71 then
            (let (name, r1) =
                   (case r of
                      a # r' \<Rightarrow> if a = CHR ''#'' \<or> a = CHR ''b'' then ([l, a], r') else ([l], r)
                    | [] \<Rightarrow> ([l], r));
                 ds = (case r1 of m # r'' \<Rightarrow> if m = CHR ''-'' then r'' else r1 | [] \<Rightarrow> r1)
             in if ds \<noteq> [] \<and> list_all isDigit ds then Some (name, r1) else None)
          else None)"

text \<open>\<^verbatim>\<open>parseInt\<close> on a string that matches \<^verbatim>\<open>-?\d+\<close>.\<close>

definition parseInt :: "string \<Rightarrow> int" where
  "parseInt s =
     (case s of
        c # r \<Rightarrow> if c = CHR ''-'' then - int (parseDigits r) else int (parseDigits s)
      | [] \<Rightarrow> 0)"

definition noteToFrequency :: "string \<Rightarrow> error + real" where
  "noteToFrequency note =
     (case matchNote note of
        None \<Rightarrow> Inl (''Invalid note format: '' @ note @ ''. Use format like A4, C#3, Bb5'')
      | Some (noteName, oct) \<Rightarrow>
          let octave = parseInt oct in
          (case noteToSemitone noteName of
             None \<Rightarrow> Inl (''Invalid note name: '' @ noteName)
           | Some semitoneOffset \<Rightarrow>
               let totalSemitones = semitoneOffset + (octave - 4) * 12
               in Inr (440 * 2 powr (real_of_int totalSemitones / 12))))"

text \<open>The regular expression \<^verbatim>\<open>/^([#b]?)(\d+)$/\<close>: the two groups, if it matches.\<close>

definition matchInterval :: "string \<Rightarrow> (string \<times> string) option" where
  "matchInterval s =
     (let (accidental, ds) =
            (case s of
               a # r \<Rightarrow> if a = CHR ''#'' \<or> a = CHR ''b'' then ([a], r) else ([], s)
             | [] \<Rightarrow> ([], s))
      in if ds \<noteq> [] \<and> list_all isDigit ds then Some (accidental, ds) else None)"

definition getIntervalRatio :: "string \<Rightarrow> error + real" where
  "getIntervalRatio interval0 =
     (let interval = trim interval0 in
      case intervals interval of
        Some r \<Rightarrow> Inr r
      | None \<Rightarrow>
          (case matchInterval interval of
             None \<Rightarrow> Inl (''Invalid interval: '' @ interval)
           | Some (accidental, ds) \<Rightarrow>
               let number = parseDigits ds in
               if number \<le> 8 then Inl (''Unknown interval: '' @ interval)
               else
                 let octaves = (number - 1) div 7;
                     simpleIntervalNumber = ((number - 1) mod 7) + 1;
                     simpleInterval = accidental @ toString simpleIntervalNumber
                 in (case intervals simpleInterval of
                       None \<Rightarrow> Inl (''Unknown compound interval: '' @ interval
                                     @ '' (derived from '' @ simpleInterval @ '')'')
                     | Some r \<Rightarrow> Inr (r * 2 ^ octaves))))"

definition calculateFrequency :: "number \<Rightarrow> string \<Rightarrow> error + number" where
  "calculateFrequency fundamental interval =
     (case getIntervalRatio interval of
        Inl e \<Rightarrow> Inl e
      | Inr ratio \<Rightarrow> Inr (mul fundamental (Num ratio)))"

definition intervalToSemitones_table :: "(string \<times> int) list" where
  "intervalToSemitones_table =
     [(''1'', 0), (''b2'', 1), (''2'', 2), (''b3'', 3), (''3'', 4), (''4'', 5),
      (''#4'', 6), (''b5'', 6), (''5'', 7), (''b6'', 8), (''6'', 9), (''b7'', 10),
      (''7'', 11), (''8'', 12)]"

definition intervalToSemitones :: "string \<rightharpoonup> int" where
  "intervalToSemitones = map_of intervalToSemitones_table"

text \<open>\<^verbatim>\<open>Math.pow(2, semitones / 12)\<close>; NaN stays NaN.\<close>

fun pow2_twelfth :: "number \<Rightarrow> number" where
  "pow2_twelfth (Num s) = Num (2 powr (s / 12))"
| "pow2_twelfth PosInfinity = PosInfinity"
| "pow2_twelfth NegInfinity = Num 0"
| "pow2_twelfth NaN = NaN"

text \<open>
  In the compound branch the table is read without a check: a missing entry is
  \<^verbatim>\<open>undefined\<close>, and \<^verbatim>\<open>undefined + octaves * 12\<close> is NaN.
\<close>

definition calculateEqualTemperament :: "number \<Rightarrow> string \<Rightarrow> error + number" where
  "calculateEqualTemperament fundamental interval =
     (case matchInterval interval of
        None \<Rightarrow> Inl (''Invalid interval: '' @ interval)
      | Some (accidental, ds) \<Rightarrow>
          let number = parseDigits ds in
          if number \<le> 8 then
            (case intervalToSemitones interval of
               None \<Rightarrow> Inl (''Unknown interval for equal temperament: '' @ interval)
             | Some semitones \<Rightarrow> Inr (mul fundamental (pow2_twelfth (Num (real_of_int semitones)))))
          else
            let octaves = (number - 1) div 7;
                simpleNumber = ((number - 1) mod 7) + 1;
                simpleInterval = accidental @ toString simpleNumber;
                semitones = (case intervalToSemitones simpleInterval of
                               None \<Rightarrow> NaN
                             | Some s \<Rightarrow> Num (real_of_int (s + int octaves * 12)))
            in Inr (mul fundamental (pow2_twelfth semitones)))"


text \<open>
  \<^verbatim>\<open>calculateChord\<close>. The argument is a string or a number; the result has the fields
  \<^verbatim>\<open>fundamental\<close> (here \<open>resultFundamental\<close>) and \<^verbatim>\<open>notes\<close> (here \<open>chordNotes\<close>).
\<close>

datatype fundamentalArg = FString string | FNumber number

record noteResult =
  interval :: string
  frequency :: number
  ratio :: real

record chordResult =
  resultFundamental :: number
  chordNotes :: "noteResult list"

text \<open>The callback of \<^verbatim>\<open>intervals.map\<close>; the first interval that throws ends the map.\<close>

definition noteOf :: "number \<Rightarrow> string \<Rightarrow> error + noteResult" where
  "noteOf fundamentalFreq i =
     (case calculateFrequency fundamentalFreq i of
        Inl e \<Rightarrow> Inl e
      | Inr f \<Rightarrow>
          (case getIntervalRatio i of
             Inl e \<Rightarrow> Inl e
           | Inr r \<Rightarrow> Inr \<lparr>interval = i, frequency = f, ratio = r\<rparr>))"

fun mapNotes :: "number \<Rightarrow> string list \<Rightarrow> error + noteResult list" where
  "mapNotes fundamentalFreq [] = Inr []"
| "mapNotes fundamentalFreq (i # is) =
     (case noteOf fundamentalFreq i of
        Inl e \<Rightarrow> Inl e
      | Inr n \<Rightarrow>
          (case mapNotes fundamentalFreq is of
             Inl e \<Rightarrow> Inl e
           | Inr ns \<Rightarrow> Inr (n # ns)))"

definition calculateChord :: "fundamentalArg \<Rightarrow> string list \<Rightarrow> error + chordResult" where
  "calculateChord fundamental ivs =
     (case (case fundamental of
              FString s \<Rightarrow>
                (case noteToFrequency s of
                   Inr f \<Rightarrow> Inr (Num f)
                 | Inl e \<Rightarrow>
                     let f = parseFloat s in
                     if isNaN f then Inl (''Invalid fundamental: '' @ s) else Inr f)
            | FNumber n \<Rightarrow> Inr n) of
        Inl e \<Rightarrow> Inl e
      | Inr fundamentalFreq \<Rightarrow>
          (case mapNotes fundamentalFreq ivs of
             Inl e \<Rightarrow> Inl e
           | Inr frequencies \<Rightarrow>
               Inr \<lparr>resultFundamental = fundamentalFreq, chordNotes = frequencies\<rparr>))"

text \<open>
  The reading of a literal frequency in the data model of the specification: a positive
  real number. It is used only to state what the code does not check.
\<close>

definition spec_literalFrequency :: "string \<Rightarrow> bool" where
  "spec_literalFrequency s = (case parseFloat s of Num x \<Rightarrow> 0 < x | _ \<Rightarrow> False)"

section \<open>Sequence parser\<close>

record parsedChord =
  fundamental :: string
  chordIntervals :: "string list"
  duration :: number

text \<open>
  The regular expression \<^verbatim>\<open>/duration\s*=\s*([0-9.]+)/i\<close>, searched from the left:
  the captured group of the first match.
\<close>

definition isDurationChar :: "char \<Rightarrow> bool" where
  "isDurationChar c = (isDigit c \<or> c = CHR ''.'')"

definition matchDurationHere :: "string \<Rightarrow> string option" where
  "matchDurationHere s =
     (if toLowerCase (take 8 s) = ''duration'' then
        (case dropWhile isWhiteSpace (drop 8 s) of
           [] \<Rightarrow> None
         | c # r \<Rightarrow>
             if c = CHR ''='' then
               (let v = takeWhile isDurationChar (dropWhile isWhiteSpace r)
                in if v = [] then None else Some v)
             else None)
      else None)"

fun matchDuration :: "string \<Rightarrow> string option" where
  "matchDuration [] = None"
| "matchDuration (c # cs) =
     (case matchDurationHere (c # cs) of
        Some v \<Rightarrow> Some v
      | None \<Rightarrow> matchDuration cs)"

text \<open>The loop over the comma-separated parts, with the two locals it updates.\<close>

fun parseParts :: "string list \<Rightarrow> string list \<Rightarrow> number \<Rightarrow> error + (string list \<times> number)" where
  \<open>parseParts [] ivs dur = Inr (ivs, dur)\<close>
| \<open>parseParts (part # parts) ivs dur =
     (if startsWith (toLowerCase part) ''duration'' then
        (case matchDuration part of
           None \<Rightarrow>
             Inl (''Invalid duration format: '' @ part @ ''. Expected format: "duration=2"'')
         | Some v \<Rightarrow>
             let d = parseFloat v in
             if isNaN d \<or> le_zero d
             then Inl (''Invalid duration value: '' @ v @ ''. Must be a positive number.'')
             else parseParts parts ivs d)
      else if part \<noteq> [] then parseParts parts (ivs @ [part]) dur
      else parseParts parts ivs dur)\<close>

text \<open>\<^verbatim>\<open>parseChordLine\<close>: \<open>Inr None\<close> is the \<^verbatim>\<open>null\<close> returned for a blank or comment line.\<close>

definition parseChordLine :: "string \<Rightarrow> error + parsedChord option" where
  \<open>parseChordLine line0 =
     (let line = trim line0 in
      if line = [] \<or> startsWith line ''#'' \<or> startsWith line ''//'' then Inr None
      else
        (case indexOf line CHR '':'' of
           None \<Rightarrow>
             Inl ''Invalid format: Missing colon. Expected format: "A4: 1,3,5, duration=2"''
         | Some colonIndex \<Rightarrow>
             let fund = trim (take colonIndex line);
                 remainder = trim (drop (colonIndex + 1) line);
                 parts = map trim (split CHR '','' remainder)
             in (case parseParts parts [] (Num 1) of
                   Inl e \<Rightarrow> Inl e
                 | Inr (ivs, dur) \<Rightarrow>
                     if length ivs = 0
                     then Inl (''No intervals specified for fundamental '' @ fund)
                     else Inr (Some \<lparr>fundamental = fund, chordIntervals = ivs,
                                      duration = dur\<rparr>))))\<close>

text \<open>The loop of \<^verbatim>\<open>parseChordSequence\<close> from line index \<open>i\<close> on.\<close>

fun parseLines :: "string list \<Rightarrow> nat \<Rightarrow> parsedChord list \<Rightarrow> error + parsedChord list" where
  "parseLines [] i chords = Inr chords"
| "parseLines (l # ls) i chords =
     (case parseChordLine l of
        Inl message \<Rightarrow> Inl (''Line '' @ toString (i + 1) @ '': '' @ message)
      | Inr None \<Rightarrow> parseLines ls (i + 1) chords
      | Inr (Some chord) \<Rightarrow> parseLines ls (i + 1) (chords @ [chord]))"

definition parseChordSequence :: "string \<Rightarrow> error + parsedChord list" where
  "parseChordSequence input =
     (case parseLines (split (CHR 0x0A) input) 0 [] of
        Inl e \<Rightarrow> Inl e
      | Inr chords \<Rightarrow>
          if length chords = 0 then Inl ''No valid chords found in input'' else Inr chords)"

text \<open>
  Vocabulary for the properties of the parser: a line that is neither blank nor a comment,
  the trimmed comma-separated parts after its first colon, and the two kinds of part the
  loop distinguishes.
\<close>

definition skippedLine :: "string \<Rightarrow> bool" where
  "skippedLine l = (trim l = [] \<or> startsWith (trim l) ''#'' \<or> startsWith (trim l) ''//'')"

definition lineParts :: "string \<Rightarrow> string list" where
  "lineParts l =
     (case indexOf (trim l) CHR '':'' of
        None \<Rightarrow> []
      | Some colonIndex \<Rightarrow> map trim (split CHR '','' (trim (drop (colonIndex + 1) (trim l)))))"

definition durationPart :: "string \<Rightarrow> bool" where
  "durationPart p = startsWith (toLowerCase p) ''duration''"

definition intervalPart :: "string \<Rightarrow> bool" where
  "intervalPart p = (p \<noteq> [] \<and> \<not> durationPart p)"

section \<open>MIDI encoder\<close>

text \<open>
  Integers are unbounded; the bitwise operators convert their operands to 32 bits
  first, as the language does.
\<close>

definition toInt32 :: "int \<Rightarrow> int" where
  "toInt32 x = (x + 2 ^ 31) mod 2 ^ 32 - 2 ^ 31"

definition bitAnd :: "int \<Rightarrow> int \<Rightarrow> int" where
  "bitAnd x y = toInt32 x AND toInt32 y"

definition bitOr :: "int \<Rightarrow> int \<Rightarrow> int" where
  "bitOr x y = toInt32 x OR toInt32 y"

definition shiftRight :: "int \<Rightarrow> nat \<Rightarrow> int" where
  "shiftRight x n = drop_bit n (toInt32 x)"

text \<open>\<^verbatim>\<open>Math.round\<close>: the nearest integer, halves upwards.\<close>

definition Math_round :: "real \<Rightarrow> int" where
  "Math_round x = \<lfloor>x + 1 / 2\<rfloor>"

record MIDIEvent =
  deltaTime :: int
  data :: "int list"

definition ppq :: int where
  "ppq = 480"

record midiPitch =
  midiNote :: int
  cents :: real

definition frequencyToMIDI :: "real \<Rightarrow> midiPitch" where
  "frequencyToMIDI freq =
     (let midiFloat = 69 + 12 * log 2 (freq / 440);
          n = Math_round midiFloat;
          c = (midiFloat - real_of_int n) * 100
      in \<lparr>midiNote = n, cents = c\<rparr>)"

definition centsToPitchBend :: "real \<Rightarrow> int" where
  "centsToPitchBend c =
     (let bendRange = 200;
          bendValue = 8192 + (c / bendRange) * 8192
      in max 0 (min 16383 (Math_round bendValue)))"

text \<open>Big-endian stores of a \<^verbatim>\<open>DataView\<close>, and the conversion of a number stored in a byte array.\<close>

definition setUint32 :: "int \<Rightarrow> int list" where
  "setUint32 v = [(v div 2 ^ 24) mod 256, (v div 2 ^ 16) mod 256, (v div 2 ^ 8) mod 256, v mod 256]"

definition setUint16 :: "int \<Rightarrow> int list" where
  "setUint16 v = [(v div 2 ^ 8) mod 256, v mod 256]"

definition toUint8 :: "int \<Rightarrow> int" where
  "toUint8 v = v mod 256"

definition createHeaderChunk :: "nat \<Rightarrow> int list" where
  "createHeaderChunk numTracks =
     [0x4D, 0x54, 0x68, 0x64] @ setUint32 6 @ setUint16 1 @ setUint16 (int numTracks)
       @ setUint16 ppq"

text \<open>The \<^verbatim>\<open>while\<close> loop of \<^verbatim>\<open>writeVarLength\<close>.\<close>

function varLengthLoop :: "int list \<Rightarrow> int \<Rightarrow> int list" where
  "varLengthLoop buffer v =
     (if v > 0 then varLengthLoop (buffer @ [bitOr (bitAnd v 0x7F) 0x80]) (shiftRight v 7)
      else buffer)"
  by pat_completeness auto
termination
proof (relation "measure (\<lambda>(buffer, v). nat v)")
  show "wf (measure (\<lambda>(buffer, v). nat v))" by simp
next
  fix buffer :: "int list" and v :: int
  assume v: "0 < v"
  have a: "toInt32 v \<le> v"
  proof -
    have "(v + 2 ^ 31) mod 2 ^ 32 \<le> v + 2 ^ 31"
      using v by (intro zmod_le_nonneg_dividend) simp
    then show ?thesis by (simp add: toInt32_def)
  qed
  have "toInt32 v div 2 ^ 7 < v"
  proof (cases "0 < toInt32 v")
    case True
    then have "toInt32 v div 2 ^ 7 < toInt32 v"
      by (intro int_div_less_self) simp_all
    with a show ?thesis by simp
  next
    case False
    then have "toInt32 v div 2 ^ 7 \<le> 0"
      by (simp add: div_int_pos_iff not_less zdiv_mono1_neg pos_imp_zdiv_neg_iff div_nonpos_pos_le0)
    with v show ?thesis by simp
  qed
  then show "((buffer @ [bitOr (bitAnd v 0x7F) 0x80], shiftRight v 7), (buffer, v))
               \<in> measure (\<lambda>(buffer, v). nat v)"
    using v by (simp add: shiftRight_def drop_bit_eq_div)
qed

declare varLengthLoop.simps [simp del]

definition writeVarLength :: "int list \<Rightarrow> int \<Rightarrow> int list" where
  "writeVarLength bytes v =
     (let buffer = [bitAnd v 0x7F];
          v1 = shiftRight v 7
      in bytes @ rev (varLengthLoop buffer v1))"

definition encodeTrackEvents :: "MIDIEvent list \<Rightarrow> int list" where
  "encodeTrackEvents events =
     map toUint8 (fold (\<lambda>event bytes. writeVarLength bytes (deltaTime event) @ data event) events [])"

definition createTrackChunk :: "MIDIEvent list \<Rightarrow> int list" where
  "createTrackChunk events =
     (let trackData = encodeTrackEvents events
      in [0x4D, 0x54, 0x72, 0x6B] @ setUint32 (int (length trackData)) @ trackData)"

definition createMIDIFile :: "MIDIEvent list list \<Rightarrow> int list" where
  "createMIDIFile tracks = createHeaderChunk (length tracks) @ concat (map createTrackChunk tracks)"

text \<open>
  \<^verbatim>\<open>generatePythagoreanMIDI\<close>. A chord carries \<^verbatim>\<open>pythagoreanNotes\<close>, each with a
  \<^verbatim>\<open>frequency\<close> (here \<open>noteFrequency\<close>), and a \<^verbatim>\<open>duration\<close> (here \<open>chordDuration\<close>).
  \<^verbatim>\<open>xs.forEach((x, i) => ...)\<close> on a list that the callback extends is \<open>forEach\<close>.
  The local \<^verbatim>\<open>currentTicks\<close> is only added to and never read; it is left out.
\<close>

record noteData =
  noteFrequency :: real

record chord =
  pythagoreanNotes :: "noteData list"
  chordDuration :: real

definition forEach :: "('s \<Rightarrow> 'a \<Rightarrow> nat \<Rightarrow> 's) \<Rightarrow> 'a list \<Rightarrow> 's \<Rightarrow> 's" where
  "forEach f xs s = fold (\<lambda>(i, x) acc. f acc x i) (enumerate 0 xs) s"

definition pitchBendEvent :: "nat \<Rightarrow> nat \<Rightarrow> int \<Rightarrow> real \<Rightarrow> MIDIEvent" where
  "pitchBendEvent chordIndex noteIndex channel c =
     \<lparr>deltaTime = (if chordIndex = 0 \<and> noteIndex = 0 then 0 else 0),
      data = [bitOr 0xE0 channel, bitAnd (centsToPitchBend c) 0x7F,
              bitAnd (shiftRight (centsToPitchBend c) 7) 0x7F]\<rparr>"

definition noteOnEvent :: "int \<Rightarrow> int \<Rightarrow> MIDIEvent" where
  "noteOnEvent channel n = \<lparr>deltaTime = 0, data = [bitOr 0x90 channel, n, 80]\<rparr>"

definition noteOffEvent :: "int \<Rightarrow> nat \<Rightarrow> int \<Rightarrow> int \<Rightarrow> MIDIEvent" where
  "noteOffEvent durationTicks noteIndex channel n =
     \<lparr>deltaTime = (if noteIndex = 0 then durationTicks else 0), data = [bitOr 0x80 channel, n, 0]\<rparr>"

definition endOfTrack :: MIDIEvent where
  "endOfTrack = \<lparr>deltaTime = 0, data = [0xFF, 0x2F, 0x00]\<rparr>"

definition noteOnStep :: "nat \<Rightarrow> MIDIEvent list \<Rightarrow> noteData \<Rightarrow> nat \<Rightarrow> MIDIEvent list" where
  "noteOnStep chordIndex noteTrack nd noteIndex =
     (let p = frequencyToMIDI (noteFrequency nd);
          channel = min (int noteIndex) 15;
          noteTrack1 = (if \<bar>cents p\<bar> > 0.5
                        then noteTrack @ [pitchBendEvent chordIndex noteIndex channel (cents p)]
                        else noteTrack)
      in noteTrack1 @ [noteOnEvent channel (midiNote p)])"

definition noteOffStep :: "int \<Rightarrow> MIDIEvent list \<Rightarrow> noteData \<Rightarrow> nat \<Rightarrow> MIDIEvent list" where
  "noteOffStep durationTicks noteTrack nd noteIndex =
     (let p = frequencyToMIDI (noteFrequency nd);
          channel = min (int noteIndex) 15
      in noteTrack @ [noteOffEvent durationTicks noteIndex channel (midiNote p)])"

definition chordStep :: "real \<Rightarrow> real \<Rightarrow> MIDIEvent list \<Rightarrow> chord \<Rightarrow> nat \<Rightarrow> MIDIEvent list" where
  "chordStep baseDuration ticksPerSecond noteTrack c chordIndex =
     (let durationTicks = Math_round (chordDuration c * baseDuration * ticksPerSecond);
          noteTrack1 = forEach (noteOnStep chordIndex) (pythagoreanNotes c) noteTrack
      in forEach (noteOffStep durationTicks) (pythagoreanNotes c) noteTrack1)"

definition tempoTrack :: "real \<Rightarrow> MIDIEvent list" where
  "tempoTrack tempo =
     (let microsecondsPerBeat = Math_round (60000000 / tempo)
      in [\<lparr>deltaTime = 0,
           data = [0xFF, 0x51, 0x03,
                   bitAnd (shiftRight microsecondsPerBeat 16) 0xFF,
                   bitAnd (shiftRight microsecondsPerBeat 8) 0xFF,
                   bitAnd microsecondsPerBeat 0xFF]\<rparr>,
          endOfTrack])"

definition noteTrack :: "chord list \<Rightarrow> real \<Rightarrow> real \<Rightarrow> MIDIEvent list" where
  "noteTrack chordSequence baseDuration tempo =
     (let ticksPerSecond = (real_of_int ppq * tempo) / 60
      in forEach (chordStep baseDuration ticksPerSecond) chordSequence [] @ [endOfTrack])"

definition generatePythagoreanMIDI :: "chord list \<Rightarrow> real \<Rightarrow> real \<Rightarrow> int list" where
  "generatePythagoreanMIDI chordSequence baseDuration tempo =
     createMIDIFile [tempoTrack tempo, noteTrack chordSequence baseDuration tempo]"


text \<open>A pitch-bend event: the high nibble of its status byte is \<open>0xE\<close>.\<close>

definition isPitchBend :: "MIDIEvent \<Rightarrow> bool" where
  "isPitchBend e = (case data e of [] \<Rightarrow> False | status # _ \<Rightarrow> bitAnd status 0xF0 = 0xE0)"

text \<open>
  The events that the first inner loop pushes for one note, and the event that the second
  inner loop pushes for it, written out for the statements about the note track.
\<close>

definition onsetEvents :: "noteData \<Rightarrow> nat \<Rightarrow> MIDIEvent list" where
  "onsetEvents nd i =
     (if 1 / 2 < \<bar>cents (frequencyToMIDI (noteFrequency nd))\<bar>
      then [\<lparr>deltaTime = 0,
             data = [bitOr 0xE0 (min (int i) 15),
                     bitAnd (centsToPitchBend (cents (frequencyToMIDI (noteFrequency nd)))) 0x7F,
                     bitAnd (shiftRight (centsToPitchBend (cents (frequencyToMIDI (noteFrequency nd)))) 7) 0x7F]\<rparr>]
      else [])
     @ [\<lparr>deltaTime = 0,
          data = [bitOr 0x90 (min (int i) 15), midiNote (frequencyToMIDI (noteFrequency nd)), 80]\<rparr>]"

definition releaseEvent :: "int \<Rightarrow> noteData \<Rightarrow> nat \<Rightarrow> MIDIEvent" where
  "releaseEvent d nd i =
     \<lparr>deltaTime = (if i = 0 then d else 0),
      data = [bitOr 0x80 (min (int i) 15), midiNote (frequencyToMIDI (noteFrequency nd)), 0]\<rparr>"

section \<open>Properties of the tuning engine\<close>



















text \<open>
  Claim C9. For every base interval symbol, \<open>getIntervalRatio\<close> returns the ratio
  tabulated for it (for instance 3/2 for \<open>5\<close> and 81/64 for \<open>3\<close>), and the symbols
  \<open>#4\<close> and \<open>b5\<close> both give 729/512. The table has fourteen keys, listed in the last
  conjunct, with thirteen distinct ratios.
\<close>

theorem getIntervalRatio_base_table:
  "getIntervalRatio ''1'' = Inr 1 \<and> getIntervalRatio ''b2'' = Inr (256 / 243)
   \<and> getIntervalRatio ''2'' = Inr (9 / 8) \<and> getIntervalRatio ''b3'' = Inr (32 / 27)
   \<and> getIntervalRatio ''3'' = Inr (81 / 64) \<and> getIntervalRatio ''4'' = Inr (4 / 3)
   \<and> getIntervalRatio ''#4'' = Inr (729 / 512) \<and> getIntervalRatio ''b5'' = Inr (729 / 512)
   \<and> getIntervalRatio ''5'' = Inr (3 / 2) \<and> getIntervalRatio ''b6'' = Inr (128 / 81)
   \<and> getIntervalRatio ''6'' = Inr (27 / 16) \<and> getIntervalRatio ''b7'' = Inr (16 / 9)
   \<and> getIntervalRatio ''7'' = Inr (243 / 128) \<and> getIntervalRatio ''8'' = Inr 2
   \<and> map fst intervals_table
       = [''1'', ''b2'', ''2'', ''b3'', ''3'', ''4'', ''#4'', ''b5'', ''5'', ''b6'', ''6'', ''b7'',
          ''7'', ''8'']"
  by code_simp

lemma mul_NaN: "mul f NaN = NaN"
  by (cases f) simp_all

text \<open>
  Claim C1. \<open>calculateEqualTemperament\<close> is claimed to fail on exactly the symbols on
  which \<open>getIntervalRatio\<close> fails, in particular on \<open>#9\<close>. On \<open>#9\<close> the ratio
  function throws, while the equal-temperament function throws nothing and returns NaN,
  whatever the fundamental is.
\<close>

theorem calculateEqualTemperament_sharp9:
  "calculateEqualTemperament f ''#9'' = Inr NaN
   \<and> getIntervalRatio ''#9'' = Inl ''Unknown compound interval: #9 (derived from #2)''"
proof
  have "matchInterval ''#9'' = Some (''#'', ''9'')" by code_simp
  moreover have "parseDigits ''9'' = 9" by code_simp
  moreover have "toString (Suc (Suc 0)) = ''2''" by code_simp
  moreover have "intervalToSemitones ''#2'' = None" by code_simp
  ultimately show "calculateEqualTemperament f ''#9'' = Inr NaN"
    by (simp add: calculateEqualTemperament_def mul_NaN)
  show "getIntervalRatio ''#9'' = Inl ''Unknown compound interval: #9 (derived from #2)''"
    by code_simp
qed



lemma getIntervalRatio_error:
  assumes "getIntervalRatio i = Inl m"
  shows "m \<noteq> ''Invalid fundamental: '' @ s"
proof -
  from assms have "(\<exists>x. m = ''Invalid interval: '' @ x) \<or> (\<exists>x. m = ''Unknown interval: '' @ x)
      \<or> (\<exists>x. m = ''Unknown compound interval: '' @ x)"
    by (auto simp: getIntervalRatio_def Let_def split: option.splits if_splits)
  then show ?thesis by auto
qed

lemma noteOf_error:
  "noteOf f i = Inl m \<Longrightarrow> m \<noteq> ''Invalid fundamental: '' @ s"
  by (auto simp: noteOf_def calculateFrequency_def split: sum.splits dest: getIntervalRatio_error)

lemma mapNotes_error:
  "mapNotes f ivs = Inl m \<Longrightarrow> m \<noteq> ''Invalid fundamental: '' @ s"
proof (induction ivs)
  case Nil
  then show ?case by simp
next
  case (Cons i ivs)
  then show ?case
    by (auto split: sum.splits dest: noteOf_error)
qed

text \<open>
  Claim C7, as amended. \<open>calculateChord\<close> resolves a string fundamental by the note-name
  parse first and by \<open>parseFloat\<close> otherwise; it throws the invalid-fundamental error
  exactly when the note-name parse fails and \<open>parseFloat\<close> gives NaN. Whenever a result
  is returned, its fundamental is the note-name frequency, or else the number that
  \<open>parseFloat\<close> read, of any sign.
\<close>

theorem calculateChord_fundamental:
  "(calculateChord (FString s) ivs = Inl (''Invalid fundamental: '' @ s)
      \<longleftrightarrow> isl (noteToFrequency s) \<and> parseFloat s = NaN)
   \<and> (\<forall>res. calculateChord (FString s) ivs = Inr res \<longrightarrow>
         resultFundamental res
           = (case noteToFrequency s of Inr f \<Rightarrow> Num f | Inl e \<Rightarrow> parseFloat s))"
proof (intro conjI allI impI)
  show "calculateChord (FString s) ivs = Inl (''Invalid fundamental: '' @ s)
      \<longleftrightarrow> isl (noteToFrequency s) \<and> parseFloat s = NaN"
    using mapNotes_error [of _ ivs _ s]
    by (auto simp: calculateChord_def isNaN_def Let_def split: sum.splits)
next
  fix res
  assume "calculateChord (FString s) ivs = Inr res"
  then show "resultFundamental res
           = (case noteToFrequency s of Inr f \<Rightarrow> Num f | Inl e \<Rightarrow> parseFloat s)"
    by (auto simp: calculateChord_def isNaN_def Let_def split: sum.splits if_splits)
qed

theorem calculateChord_fundamental_witness:
  "calculateChord (FString ''Cb4'') [''1''] = Inl ''Invalid fundamental: Cb4''
   \<and> isl (noteToFrequency ''Cb4'') \<and> parseFloat ''Cb4'' = NaN
   \<and> calculateChord (FString ''440abc'') [''5'']
       = Inr \<lparr>resultFundamental = Num 440,
              chordNotes = [\<lparr>interval = ''5'', frequency = Num 660, ratio = 3 / 2\<rparr>]\<rparr>
   \<and> resultFundamental \<lparr>resultFundamental = Num 440,
              chordNotes = [\<lparr>interval = ''5'', frequency = Num 660, ratio = 3 / 2\<rparr>]\<rparr>
       = parseFloat ''440abc''"
proof -
  have a: "isl (noteToFrequency ''Cb4'')" "parseFloat ''Cb4'' = NaN" by code_simp+
  have b: "calculateChord (FString ''440abc'') [''5'']
       = Inr \<lparr>resultFundamental = Num 440,
              chordNotes = [\<lparr>interval = ''5'', frequency = Num 660, ratio = 3 / 2\<rparr>]\<rparr>"
    by code_simp
  have c: "isl (noteToFrequency ''440abc'')" by code_simp
  from calculateChord_fundamental [of "''Cb4''" "[''1'']"] a
  have 1: "calculateChord (FString ''Cb4'') [''1''] = Inl ''Invalid fundamental: Cb4''" by simp
  from calculateChord_fundamental [of "''440abc''" "[''5'']"] b c
  have 2: "resultFundamental \<lparr>resultFundamental = Num 440,
              chordNotes = [\<lparr>interval = ''5'', frequency = Num 660, ratio = 3 / 2\<rparr>]\<rparr>
       = parseFloat ''440abc''"
    by (auto split: sum.splits)
  from 1 2 a b show ?thesis by simp
qed

text \<open>
  Claim C7, as stated, takes a literal frequency to be a positive real number. The
  string \<open>-5\<close> is neither a note name nor a positive number, and no error is thrown:
  the chord is computed on the fundamental -5.
\<close>

theorem calculateChord_nonpositive_counterexample:
  "isl (noteToFrequency ''-5'') \<and> \<not> spec_literalFrequency ''-5''
   \<and> calculateChord (FString ''-5'') [''1'']
       = Inr \<lparr>resultFundamental = Num (- 5),
              chordNotes = [\<lparr>interval = ''1'', frequency = Num (- 5), ratio = 1\<rparr>]\<rparr>"
  by code_simp

section \<open>Properties of the sequence parser\<close>

lemma indexOf_None: "indexOf s c = None \<longleftrightarrow> c \<notin> set s"
  by (induction s) auto

lemma parseChordLine_skipped: "skippedLine l \<Longrightarrow> parseChordLine l = Inr None"
  by (simp add: parseChordLine_def skippedLine_def Let_def)

lemma parseChordLine_no_colon:
  assumes "\<not> skippedLine l" "CHR '':'' \<notin> set (trim l)"
  shows \<open>parseChordLine l
           = Inl ''Invalid format: Missing colon. Expected format: "A4: 1,3,5, duration=2"''\<close>
proof -
  from assms(2) have "indexOf (trim l) CHR '':'' = None" by (simp add: indexOf_None)
  with assms(1) show ?thesis
    by (simp add: parseChordLine_def skippedLine_def Let_def)
qed

lemma parseChordLine_parts:
  assumes "\<not> skippedLine l" "indexOf (trim l) CHR '':'' = Some k"
  shows "parseChordLine l =
     (case parseParts (lineParts l) [] (Num 1) of
        Inl e \<Rightarrow> Inl e
      | Inr (ivs, dur) \<Rightarrow>
          if ivs = [] then Inl (''No intervals specified for fundamental '' @ trim (take k (trim l)))
          else Inr (Some \<lparr>fundamental = trim (take k (trim l)), chordIntervals = ivs,
                           duration = dur\<rparr>))"
  using assms
  by (simp add: parseChordLine_def skippedLine_def lineParts_def Let_def split: sum.splits)

lemma parseParts_result:
  "parseParts ps ivs d = Inr (ivs', d') \<Longrightarrow>
     ivs' = ivs @ filter intervalPart ps
     \<and> (filter durationPart ps = [] \<longrightarrow> d' = d)
     \<and> (filter durationPart ps \<noteq> [] \<longrightarrow>
          (\<exists>v. matchDuration (last (filter durationPart ps)) = Some v \<and> d' = parseFloat v
               \<and> \<not> isNaN d' \<and> \<not> le_zero d'))"
proof (induction ps arbitrary: ivs d)
  case Nil
  then show ?case by simp
next
  case (Cons p ps)
  show ?case
  proof (cases "durationPart p")
    case True
    with Cons.prems obtain v where v: "matchDuration p = Some v"
      "\<not> isNaN (parseFloat v)" "\<not> le_zero (parseFloat v)"
      "parseParts ps ivs (parseFloat v) = Inr (ivs', d')"
      by (auto simp: durationPart_def Let_def split: option.splits if_splits)
    from Cons.IH [OF v(4)] v True show ?thesis
      by (auto simp: intervalPart_def)
  next
    case False
    with Cons.prems have "parseParts ps (if p \<noteq> [] then ivs @ [p] else ivs) d = Inr (ivs', d')"
      by (auto simp: durationPart_def split: if_splits)
    from Cons.IH [OF this] False show ?thesis
      by (auto simp: intervalPart_def)
  qed
qed

lemma parseParts_bad_duration:
  assumes "p \<in> set ps" "durationPart p" "matchDuration p = Some v"
    "isNaN (parseFloat v) \<or> le_zero (parseFloat v)"
  shows "isl (parseParts ps ivs d)"
  using assms(1)
proof (induction ps arbitrary: ivs d)
  case Nil
  then show ?case by simp
next
  case (Cons q qs)
  show ?case
  proof (cases "q = p")
    case True
    with assms(2-4) show ?thesis by (auto simp: durationPart_def Let_def)
  next
    case False
    with Cons have "\<And>ivs d. isl (parseParts qs ivs d)" by simp
    then show ?thesis
      by (auto simp: Let_def split: option.splits)
  qed
qed

lemma parseLines_first_error:
  assumes "i < length ls" "parseChordLine (ls ! i) = Inl message"
    "\<forall>j<i. \<not> isl (parseChordLine (ls ! j))"
  shows "parseLines ls k chords = Inl (''Line '' @ toString (k + i + 1) @ '': '' @ message)"
  using assms
proof (induction ls arbitrary: i k chords)
  case Nil
  then show ?case by simp
next
  case (Cons l ls)
  show ?case
  proof (cases i)
    case 0
    with Cons.prems show ?thesis by simp
  next
    case (Suc i')
    with Cons.prems have ok: "\<not> isl (parseChordLine l)" by auto
    from Suc Cons.prems have "i' < length ls" "parseChordLine (ls ! i') = Inl message"
      "\<forall>j<i'. \<not> isl (parseChordLine (ls ! j))" by auto
    from Cons.IH [OF this] have "\<And>k chords. parseLines ls k chords
        = Inl (''Line '' @ toString (k + i' + 1) @ '': '' @ message)" .
    with ok Suc show ?thesis
      by (cases "parseChordLine l") (auto split: option.splits)
  qed
qed

lemma parseLines_all_skipped:
  "\<forall>l\<in>set ls. parseChordLine l = Inr None \<Longrightarrow> parseLines ls k chords = Inr chords"
  by (induction ls arbitrary: k chords) auto


text \<open>
  Claim C8. The line \<open>C4: 1,3,5, duration=2\<close> parses to the fundamental \<open>C4\<close>, the
  intervals 1, 3, 5 and the duration 2. For every line that yields a chord: its intervals
  are the non-empty, non-duration parts after the colon, in their written order and with
  repetitions kept; its duration is 1 when no part is a duration part; otherwise it is the
  value of the last duration part, wherever that part stands among the others.
\<close>

theorem parseChordLine_chord:
  \<open>parseChordLine ''C4: 1,3,5, duration=2''
     = Inr (Some \<lparr>fundamental = ''C4'', chordIntervals = [''1'', ''3'', ''5''],
                   duration = Num 2\<rparr>)
   \<and> (\<forall>c. parseChordLine l = Inr (Some c) \<longrightarrow>
          chordIntervals c = filter intervalPart (lineParts l)
          \<and> (filter durationPart (lineParts l) = [] \<longrightarrow> duration c = Num 1)
          \<and> (filter durationPart (lineParts l) \<noteq> [] \<longrightarrow>
               (\<exists>v. matchDuration (last (filter durationPart (lineParts l))) = Some v
                    \<and> duration c = parseFloat v)))\<close>
proof (intro conjI allI impI)
  show \<open>parseChordLine ''C4: 1,3,5, duration=2''
     = Inr (Some \<lparr>fundamental = ''C4'', chordIntervals = [''1'', ''3'', ''5''],
                   duration = Num 2\<rparr>)\<close>
    by code_simp
next
  fix c
  assume c: "parseChordLine l = Inr (Some c)"
  then have ns: "\<not> skippedLine l"
    by (auto simp: parseChordLine_skipped)
  from c ns obtain k where k: "indexOf (trim l) CHR '':'' = Some k"
    by (cases "indexOf (trim l) CHR '':''")
       (auto simp: parseChordLine_def skippedLine_def Let_def)
  from c obtain ivs dur where r: "parseParts (lineParts l) [] (Num 1) = Inr (ivs, dur)"
    and i: "chordIntervals c = ivs" and d: "duration c = dur"
    unfolding parseChordLine_parts [OF ns k]
    by (auto split: sum.splits if_splits)
  note res = parseParts_result [OF r]
  from res i show "chordIntervals c = filter intervalPart (lineParts l)" by simp
  {
    assume "filter durationPart (lineParts l) = []"
    with res d show "duration c = Num 1" by simp
  }
  {
    assume "filter durationPart (lineParts l) \<noteq> []"
    with res d show "\<exists>v. matchDuration (last (filter durationPart (lineParts l))) = Some v
                    \<and> duration c = parseFloat v"
      by auto
  }
qed

theorem parseChordLine_chord_witness:
  \<open>parseChordLine ''C4: 5,1,,5''
     = Inr (Some \<lparr>fundamental = ''C4'', chordIntervals = [''5'', ''1'', ''5''],
                   duration = Num 1\<rparr>)
   \<and> filter durationPart (lineParts ''C4: 5,1,,5'') = []
   \<and> filter intervalPart (lineParts ''C4: 5,1,,5'') = [''5'', ''1'', ''5'']
   \<and> parseChordLine ''A3: 1, Duration = 1.5, b3,5''
       = Inr (Some \<lparr>fundamental = ''A3'', chordIntervals = [''1'', ''b3'', ''5''],
                     duration = Num (3 / 2)\<rparr>)
   \<and> filter durationPart (lineParts ''A3: 1, Duration = 1.5, b3,5'') = [''Duration = 1.5'']
   \<and> filter intervalPart (lineParts ''A3: 1, Duration = 1.5, b3,5'') = [''1'', ''b3'', ''5'']
   \<and> (\<exists>v. matchDuration ''Duration = 1.5'' = Some v \<and> Num (3 / 2) = parseFloat v)\<close>
proof -
  have a: \<open>parseChordLine ''C4: 5,1,,5''
     = Inr (Some \<lparr>fundamental = ''C4'', chordIntervals = [''5'', ''1'', ''5''],
                   duration = Num 1\<rparr>)\<close>
    by code_simp
  have a': "filter durationPart (lineParts ''C4: 5,1,,5'') = []"
    by code_simp
  have b: \<open>parseChordLine ''A3: 1, Duration = 1.5, b3,5''
       = Inr (Some \<lparr>fundamental = ''A3'', chordIntervals = [''1'', ''b3'', ''5''],
                     duration = Num (3 / 2)\<rparr>)\<close>
    by code_simp
  have b': "filter durationPart (lineParts ''A3: 1, Duration = 1.5, b3,5'') = [''Duration = 1.5'']"
    by code_simp
  from parseChordLine_chord [of "''C4: 5,1,,5''"] a a'
  have 1: "filter intervalPart (lineParts ''C4: 5,1,,5'') = [''5'', ''1'', ''5'']"
    by simp
  from parseChordLine_chord [of "''A3: 1, Duration = 1.5, b3,5''"] b b'
  have 2: "filter intervalPart (lineParts ''A3: 1, Duration = 1.5, b3,5'') = [''1'', ''b3'', ''5'']
    \<and> (\<exists>v. matchDuration ''Duration = 1.5'' = Some v \<and> Num (3 / 2) = parseFloat v)"
    by simp
  from a a' b b' 1 2 show ?thesis by simp
qed

text \<open>
  Claim C3. \<open>parseChordSequence\<close> stops at the first line on which \<open>parseChordLine\<close>
  throws and prefixes the message with the 1-based number of that line. A line that is
  neither blank nor a comment fails when it has no colon, when one of its duration parts
  has a value that is NaN or not positive, and when none of its parts is an interval.
  Blank lines and lines starting, after white space, with \<open>#\<close> or \<open>//\<close> give
  \<^verbatim>\<open>null\<close>. An input all of whose lines give \<^verbatim>\<open>null\<close> fails with the empty-sequence
  error.
\<close>

theorem parseChordSequence_errors:
  \<open>(i < length (split (CHR 0x0A) inputA)
      \<and> parseChordLine (split (CHR 0x0A) inputA ! i) = Inl message
      \<and> (\<forall>j<i. \<not> isl (parseChordLine (split (CHR 0x0A) inputA ! j)))
      \<longrightarrow> parseChordSequence inputA = Inl (''Line '' @ toString (i + 1) @ '': '' @ message))
   \<and> (\<not> skippedLine lB \<and> CHR '':'' \<notin> set (trim lB)
      \<longrightarrow> parseChordLine lB
            = Inl ''Invalid format: Missing colon. Expected format: "A4: 1,3,5, duration=2"'')
   \<and> (\<not> skippedLine lC \<and> p \<in> set (lineParts lC) \<and> durationPart p \<and> matchDuration p = Some v
        \<and> (isNaN (parseFloat v) \<or> le_zero (parseFloat v))
      \<longrightarrow> isl (parseChordLine lC))
   \<and> (\<not> skippedLine lD \<and> filter intervalPart (lineParts lD) = []
      \<longrightarrow> isl (parseChordLine lD))
   \<and> (skippedLine lE \<longrightarrow> parseChordLine lE = Inr None)
   \<and> ((\<forall>l\<in>set (split (CHR 0x0A) inputF). parseChordLine l = Inr None)
      \<longrightarrow> parseChordSequence inputF = Inl ''No valid chords found in input'')\<close>
proof (intro conjI impI)
  assume "i < length (split (CHR 0x0A) inputA)
      \<and> parseChordLine (split (CHR 0x0A) inputA ! i) = Inl message
      \<and> (\<forall>j<i. \<not> isl (parseChordLine (split (CHR 0x0A) inputA ! j)))"
  then have "parseLines (split (CHR 0x0A) inputA) 0 []
      = Inl (''Line '' @ toString (0 + i + 1) @ '': '' @ message)"
    by (intro parseLines_first_error) simp_all
  then show "parseChordSequence inputA = Inl (''Line '' @ toString (i + 1) @ '': '' @ message)"
    by (simp add: parseChordSequence_def)
next
  assume "\<not> skippedLine lB \<and> CHR '':'' \<notin> set (trim lB)"
  then show \<open>parseChordLine lB
            = Inl ''Invalid format: Missing colon. Expected format: "A4: 1,3,5, duration=2"''\<close>
    by (simp add: parseChordLine_no_colon)
next
  assume h: "\<not> skippedLine lC \<and> p \<in> set (lineParts lC) \<and> durationPart p
      \<and> matchDuration p = Some v \<and> (isNaN (parseFloat v) \<or> le_zero (parseFloat v))"
  then obtain k where k: "indexOf (trim lC) CHR '':'' = Some k"
    by (cases "indexOf (trim lC) CHR '':''") (auto simp: lineParts_def)
  from h have "isl (parseParts (lineParts lC) [] (Num 1))"
    by (intro parseParts_bad_duration [of p _ v]) simp_all
  with h show "isl (parseChordLine lC)"
    unfolding parseChordLine_parts [OF conjunct1 [OF h] k]
    by (auto split: sum.splits)
next
  assume h: "\<not> skippedLine lD \<and> filter intervalPart (lineParts lD) = []"
  show "isl (parseChordLine lD)"
  proof (cases "indexOf (trim lD) CHR '':''")
    case None
    with h show ?thesis by (simp add: parseChordLine_no_colon indexOf_None)
  next
    case (Some k)
    show ?thesis
      unfolding parseChordLine_parts [OF conjunct1 [OF h] Some]
      using h by (auto split: sum.splits dest!: parseParts_result)
  qed
next
  assume "skippedLine lE"
  then show "parseChordLine lE = Inr None" by (rule parseChordLine_skipped)
next
  assume "\<forall>l\<in>set (split (CHR 0x0A) inputF). parseChordLine l = Inr None"
  then have "parseLines (split (CHR 0x0A) inputF) 0 [] = Inr []"
    by (rule parseLines_all_skipped)
  then show "parseChordSequence inputF = Inl ''No valid chords found in input''"
    by (simp add: parseChordSequence_def)
qed


theorem parseChordSequence_errors_witness:
  \<open>parseChordSequence (''# hi'' @ [CHR 0x0A] @ ''C4: 1'' @ [CHR 0x0A] @ ''C4 1'')
     = Inl ''Line 3: Invalid format: Missing colon. Expected format: "A4: 1,3,5, duration=2"''
   \<and> \<not> skippedLine ''C4 1,3,5'' \<and> CHR '':'' \<notin> set (trim ''C4 1,3,5'')
   \<and> parseChordLine ''C4 1,3,5''
       = Inl ''Invalid format: Missing colon. Expected format: "A4: 1,3,5, duration=2"''
   \<and> \<not> skippedLine ''C4: 1, duration=0'' \<and> ''duration=0'' \<in> set (lineParts ''C4: 1, duration=0'')
   \<and> durationPart ''duration=0'' \<and> matchDuration ''duration=0'' = Some ''0''
   \<and> le_zero (parseFloat ''0'') \<and> isl (parseChordLine ''C4: 1, duration=0'')
   \<and> \<not> skippedLine ''C4: duration=2'' \<and> filter intervalPart (lineParts ''C4: duration=2'') = []
   \<and> isl (parseChordLine ''C4: duration=2'')
   \<and> skippedLine ''  // c'' \<and> parseChordLine ''  // c'' = Inr None
   \<and> parseChordSequence (''# a'' @ [CHR 0x0A] @ [CHR 0x0A] @ ''// b'')
       = Inl ''No valid chords found in input''\<close>
proof -
  define inputA where "inputA = ''# hi'' @ [CHR 0x0A] @ ''C4: 1'' @ [CHR 0x0A] @ ''C4 1''"
  define inputF where "inputF = ''# a'' @ [CHR 0x0A] @ [CHR 0x0A] @ ''// b''"
  have sA: "split (CHR 0x0A) inputA = [''# hi'', ''C4: 1'', ''C4 1'']"
    unfolding inputA_def by code_simp
  have sF: "split (CHR 0x0A) inputF = [''# a'', [], ''// b'']"
    unfolding inputF_def by code_simp
  have l0: "parseChordLine ''# hi'' = Inr None" by code_simp
  have l1: "\<not> isl (parseChordLine ''C4: 1'')" by code_simp
  have l2: \<open>parseChordLine ''C4 1''
      = Inl ''Invalid format: Missing colon. Expected format: "A4: 1,3,5, duration=2"''\<close>
    by code_simp
  have f0: "parseChordLine ''# a'' = Inr None" by code_simp
  have f1: "parseChordLine [] = Inr None" by code_simp
  have f2: "parseChordLine ''// b'' = Inr None" by code_simp
  have t3: "toString 3 = ''3''" by code_simp
  define msg where
    \<open>msg = ''Invalid format: Missing colon. Expected format: "A4: 1,3,5, duration=2"''\<close>
  have hA: "(2::nat) < length (split (CHR 0x0A) inputA)
      \<and> parseChordLine (split (CHR 0x0A) inputA ! 2) = Inl msg
      \<and> (\<forall>j<2. \<not> isl (parseChordLine (split (CHR 0x0A) inputA ! j)))"
    using l0 l1 l2 unfolding msg_def by (simp add: sA less_Suc_eq numeral_2_eq_2)
  have hB: "\<not> skippedLine ''C4 1,3,5'' \<and> CHR '':'' \<notin> set (trim ''C4 1,3,5'')"
    by code_simp
  have hC: "\<not> skippedLine ''C4: 1, duration=0''
      \<and> ''duration=0'' \<in> set (lineParts ''C4: 1, duration=0'')
      \<and> durationPart ''duration=0'' \<and> matchDuration ''duration=0'' = Some ''0''
      \<and> (isNaN (parseFloat ''0'') \<or> le_zero (parseFloat ''0''))"
    by code_simp
  have hC': "le_zero (parseFloat ''0'')" by code_simp
  have hD: "\<not> skippedLine ''C4: duration=2''
      \<and> filter intervalPart (lineParts ''C4: duration=2'') = []"
    by code_simp
  have hE: "skippedLine ''  // c''" by code_simp
  have hF: "\<forall>l\<in>set (split (CHR 0x0A) inputF). parseChordLine l = Inr None"
    using f0 f1 f2 by (simp add: sF)
  note inst = parseChordSequence_errors [of 2 inputA msg "''C4 1,3,5''" "''C4: 1, duration=0''"
      "''duration=0''" "''0''" "''C4: duration=2''" "''  // c''" inputF]
  from inst hA have "parseChordSequence inputA = Inl (''Line '' @ toString (2 + 1) @ '': '' @ msg)"
    by blast
  then have cA: \<open>parseChordSequence inputA
     = Inl ''Line 3: Invalid format: Missing colon. Expected format: "A4: 1,3,5, duration=2"''\<close>
    by (simp add: t3 msg_def)
  from inst hB have cB: \<open>parseChordLine ''C4 1,3,5''
       = Inl ''Invalid format: Missing colon. Expected format: "A4: 1,3,5, duration=2"''\<close>
    by blast
  from inst hC have cC: "isl (parseChordLine ''C4: 1, duration=0'')" by blast
  from inst hD have cD: "isl (parseChordLine ''C4: duration=2'')" by blast
  from inst hE have cE: "parseChordLine ''  // c'' = Inr None" by blast
  from inst hF have cF: "parseChordSequence inputF = Inl ''No valid chords found in input''"
    by blast
  from cA cB cC cD cE cF hB hC hC' hD hE show ?thesis
    unfolding inputA_def inputF_def by blast
qed

section \<open>Properties of the MIDI encoder\<close>













lemma fold_push:
  assumes "\<And>acc x i. f acc x i = acc @ g x i"
  shows "fold (\<lambda>(i, x) acc. f acc x i) (enumerate n xs) s
           = s @ concat (map (\<lambda>(i, x). g x i) (enumerate n xs))"
  by (induction xs arbitrary: n s) (simp_all add: assms)

lemma forEach_push:
  assumes "\<And>acc x i. f acc x i = acc @ g x i"
  shows "forEach f xs s = s @ concat (map (\<lambda>(i, x). g x i) (enumerate 0 xs))"
  unfolding forEach_def by (rule fold_push [OF assms])

lemma map_enumerate_const: "map (\<lambda>(i, x). g x) (enumerate n xs) = map g xs"
  by (induction xs arbitrary: n) simp_all

lemma concat_singletons: "concat (map (\<lambda>(i, x). [h x i]) ys) = map (\<lambda>(i, x). h x i) ys"
  by (induction ys) auto

lemma noteOnStep_push: "noteOnStep ci tr nd i = tr @ onsetEvents nd i"
  by (simp add: noteOnStep_def onsetEvents_def pitchBendEvent_def noteOnEvent_def Let_def)

lemma noteOffStep_push: "noteOffStep d tr nd i = tr @ [releaseEvent d nd i]"
  by (simp add: noteOffStep_def releaseEvent_def noteOffEvent_def Let_def)

lemma chordStep_push:
  "chordStep bd tps tr c ci =
     tr @ (concat (map (\<lambda>(i, nd). onsetEvents nd i) (enumerate 0 (pythagoreanNotes c)))
           @ map (\<lambda>(i, nd). releaseEvent (Math_round (chordDuration c * bd * tps)) nd i)
               (enumerate 0 (pythagoreanNotes c)))"
  by (simp add: chordStep_def Let_def forEach_push [of "noteOnStep ci", OF noteOnStep_push]
      forEach_push [of "noteOffStep d" for d, OF noteOffStep_push] concat_singletons)

lemma noteTrack_structure:
  "noteTrack cs bd tempo =
     concat (map (\<lambda>c. concat (map (\<lambda>(i, nd). onsetEvents nd i) (enumerate 0 (pythagoreanNotes c)))
                      @ map (\<lambda>(i, nd). releaseEvent
                                (Math_round (chordDuration c * bd * (480 * tempo / 60))) nd i)
                          (enumerate 0 (pythagoreanNotes c)))
               cs)
     @ [endOfTrack]"
  by (simp add: noteTrack_def ppq_def forEach_push [of "chordStep bd tps" for tps, OF chordStep_push]
      map_enumerate_const)


lemma channel_cases:
  assumes "0 \<le> ch" "ch \<le> 15"
  shows "ch \<in> {0, 1, 2, 3, 4, 5, 6, 7, 8, 9, 10, 11, 12, 13, 14, (15::int)}"
  using assms by simp arith

lemma status_nibbles:
  assumes "0 \<le> ch" "ch \<le> 15" "s \<in> {0x80, 0x90, 0xE0}"
  shows "bitAnd (bitOr s ch) 0x0F = ch \<and> bitAnd (bitOr s ch) 0xF0 = s"
  using channel_cases [OF assms(1,2)] assms(3)
  by (auto simp: bitAnd_def bitOr_def toInt32_def)

lemma status_nibbles_min:
  "s \<in> {0x80, 0x90, 0xE0} \<Longrightarrow>
     bitAnd (bitOr s (min (int i) 15)) 0x0F = min (int i) 15
     \<and> bitAnd (bitOr s (min (int i) 15)) 0xF0 = s"
  by (rule status_nibbles) simp_all

lemma isPitchBend_events:
  "isPitchBend (pitchBendEvent ci i (min (int i) 15) c)"
  "\<not> isPitchBend (noteOnEvent (min (int i) 15) n)"
  "\<not> isPitchBend (noteOffEvent d i (min (int i) 15) n)"
  "\<not> isPitchBend endOfTrack"
  using status_nibbles_min [of "0xE0" i] status_nibbles_min [of "0x90" i]
    status_nibbles_min [of "0x80" i]
  by (simp_all add: isPitchBend_def pitchBendEvent_def noteOnEvent_def noteOffEvent_def
      endOfTrack_def)
     (simp add: bitAnd_def toInt32_def)



lemma filter_onsetEvents:
  "filter isPitchBend (onsetEvents nd i) =
     (if 1 / 2 < \<bar>cents (frequencyToMIDI (noteFrequency nd))\<bar>
      then [pitchBendEvent 0 i (min (int i) 15) (cents (frequencyToMIDI (noteFrequency nd)))]
      else [])"
  using isPitchBend_events(1) [of 0 i "cents (frequencyToMIDI (noteFrequency nd))"]
    isPitchBend_events(2) [of i "midiNote (frequencyToMIDI (noteFrequency nd))"]
  by (simp add: onsetEvents_def pitchBendEvent_def noteOnEvent_def)

lemma filter_onsets:
  "filter isPitchBend (concat (map (\<lambda>(i, nd). onsetEvents nd i) ys)) =
     concat (map (\<lambda>(i, nd).
        if 1 / 2 < \<bar>cents (frequencyToMIDI (noteFrequency nd))\<bar>
        then [pitchBendEvent 0 i (min (int i) 15) (cents (frequencyToMIDI (noteFrequency nd)))]
        else []) ys)"
  by (induction ys) (auto simp: filter_onsetEvents)

lemma filter_releases:
  "filter isPitchBend (map (\<lambda>(i, nd). releaseEvent d nd i) ys) = []"
proof (induction ys)
  case Nil
  then show ?case by simp
next
  case (Cons y ys)
  obtain i nd where y: "y = (i, nd)" by (cases y)
  from isPitchBend_events(3) [of d i "midiNote (frequencyToMIDI (noteFrequency nd))"]
  have "\<not> isPitchBend (releaseEvent d nd i)"
    by (simp add: releaseEvent_def noteOffEvent_def)
  with Cons y show ?case by simp
qed

text \<open>
  Claim C5. \<open>centsToPitchBend\<close> is \<open>round (8192 + cents / 200 * 8192)\<close> clamped to
  [0, 16383]. The step for one note pushes a pitch-bend event before the note-on exactly
  when the absolute cents deviation exceeds 0.5, and only the note-on otherwise. The
  events of track 1 whose status byte has high nibble \<open>0xE\<close> are exactly these pitch-bend
  events, one for each note whose deviation exceeds 0.5, in order.
\<close>

theorem pitch_bend_events:
  "centsToPitchBend x =
     (let r = Math_round (8192 + x / 200 * 8192)
      in if r < 0 then 0 else if 16383 < r then 16383 else r)
   \<and> noteOnStep ci tr nd i =
       (let p = frequencyToMIDI (noteFrequency nd)
        in tr @ (if 1 / 2 < \<bar>cents p\<bar> then [pitchBendEvent ci i (min (int i) 15) (cents p)] else [])
              @ [noteOnEvent (min (int i) 15) (midiNote p)])
   \<and> isPitchBend (pitchBendEvent ci i (min (int i) 15) x)
   \<and> data (pitchBendEvent ci i (min (int i) 15) x) ! 0 = bitOr 0xE0 (min (int i) 15)
   \<and> \<not> isPitchBend (noteOnEvent (min (int i) 15) n)
   \<and> \<not> isPitchBend (noteOffEvent d i (min (int i) 15) n)
   \<and> \<not> isPitchBend endOfTrack
   \<and> filter isPitchBend (noteTrack cs bd tempo) =
       concat (map (\<lambda>c. concat (map (\<lambda>(j, nd).
           let p = frequencyToMIDI (noteFrequency nd) in
           if 1 / 2 < \<bar>cents p\<bar>
           then [\<lparr>deltaTime = 0,
                  data = [bitOr 0xE0 (min (int j) 15),
                          bitAnd (centsToPitchBend (cents p)) 0x7F,
                          bitAnd (shiftRight (centsToPitchBend (cents p)) 7) 0x7F]\<rparr>]
           else []) (enumerate 0 (pythagoreanNotes c)))) cs)"
proof (intro conjI)
  show "centsToPitchBend x =
     (let r = Math_round (8192 + x / 200 * 8192)
      in if r < 0 then 0 else if 16383 < r then 16383 else r)"
    by (simp add: centsToPitchBend_def Let_def)
  show "noteOnStep ci tr nd i =
       (let p = frequencyToMIDI (noteFrequency nd)
        in tr @ (if 1 / 2 < \<bar>cents p\<bar> then [pitchBendEvent ci i (min (int i) 15) (cents p)] else [])
              @ [noteOnEvent (min (int i) 15) (midiNote p)])"
    by (simp add: noteOnStep_def Let_def)
  show "isPitchBend (pitchBendEvent ci i (min (int i) 15) x)"
    "\<not> isPitchBend (noteOnEvent (min (int i) 15) n)"
    "\<not> isPitchBend (noteOffEvent d i (min (int i) 15) n)"
    "\<not> isPitchBend endOfTrack"
    by (rule isPitchBend_events)+
  show "data (pitchBendEvent ci i (min (int i) 15) x) ! 0 = bitOr 0xE0 (min (int i) 15)"
    by (simp add: pitchBendEvent_def)
  have "filter isPitchBend (noteTrack cs bd tempo) =
     concat (map (\<lambda>c. concat (map (\<lambda>(j, nd).
        if 1 / 2 < \<bar>cents (frequencyToMIDI (noteFrequency nd))\<bar>
        then [pitchBendEvent 0 j (min (int j) 15) (cents (frequencyToMIDI (noteFrequency nd)))]
        else []) (enumerate 0 (pythagoreanNotes c)))) cs)"
    unfolding noteTrack_structure
    by (induction cs) (simp_all add: filter_onsets filter_releases isPitchBend_events(4))
  then show "filter isPitchBend (noteTrack cs bd tempo) =
       concat (map (\<lambda>c. concat (map (\<lambda>(j, nd).
           let p = frequencyToMIDI (noteFrequency nd) in
           if 1 / 2 < \<bar>cents p\<bar>
           then [\<lparr>deltaTime = 0,
                  data = [bitOr 0xE0 (min (int j) 15),
                          bitAnd (centsToPitchBend (cents p)) 0x7F,
                          bitAnd (shiftRight (centsToPitchBend (cents p)) 7) 0x7F]\<rparr>]
           else []) (enumerate 0 (pythagoreanNotes c)))) cs)"
    by (simp add: pitchBendEvent_def Let_def cong: if_cong)
qed

lemma toInt32_signed: "toInt32 x = signed_take_bit 31 x"
  by (simp add: toInt32_def signed_take_bit_eq_take_bit_shift take_bit_eq_mod)

lemma byte_of_shift:
  assumes "k \<le> 24"
  shows "bitAnd (shiftRight m k) 0xFF = (m div 2 ^ k) mod 256"
proof -
  have a: "toInt32 255 = 255" by (simp add: toInt32_def)
  have b: "y AND 255 = take_bit 8 y" for y :: int
    by (simp add: take_bit_eq_mask mask_eq_exp_minus_1)
  have "take_bit 8 (signed_take_bit 31 (drop_bit k (signed_take_bit 31 m)))
          = take_bit 8 (drop_bit k m)"
  proof (rule bit_eqI)
    fix n
    show "bit (take_bit 8 (signed_take_bit 31 (drop_bit k (signed_take_bit 31 m)))) n
            = bit (take_bit 8 (drop_bit k m)) n"
    proof (cases "n < 8")
      case True
      then have "min 31 n = n" "min 31 (k + n) = k + n"
        using assms by simp_all
      with True show ?thesis by (simp add: bit_simps)
    next
      case False
      then show ?thesis by (simp add: bit_simps)
    qed
  qed
  then show ?thesis
    by (simp add: bitAnd_def shiftRight_def a b toInt32_signed take_bit_eq_mod drop_bit_eq_div)
qed


lemma shiftRight_0: "bitAnd m 0xFF = m mod 256"
proof -
  have "bitAnd (shiftRight m 0) 0xFF = (m div 2 ^ 0) mod 256"
    by (rule byte_of_shift) simp
  moreover have "bitAnd (shiftRight m 0) 0xFF = bitAnd m 0xFF"
    by (simp add: bitAnd_def shiftRight_def toInt32_signed)
  ultimately show ?thesis by simp
qed

lemma three_bytes:
  fixes m :: int
  shows "(m div 65536) mod 256 * 65536 + (m div 256) mod 256 * 256 + m mod 256 = m mod 16777216"
proof -
  have a: "m mod 16777216 = 256 * (m div 256 mod 65536) + m mod 256"
    using zmod_zmult2_eq [of 65536 m 256] by simp
  have b: "(m div 256) mod 65536 = 256 * ((m div 256) div 256 mod 256) + (m div 256) mod 256"
    using zmod_zmult2_eq [of 256 "m div 256" 256] by simp
  have c: "(m div 256) div 256 = m div 65536"
    using zdiv_zmult2_eq [of 256 m 256] by simp
  show ?thesis
    unfolding a b c by (simp only: algebra_simps)
qed


lemma varLengthLoop_done: "v \<le> 0 \<Longrightarrow> varLengthLoop buffer v = buffer"
  by (subst varLengthLoop.simps) simp

lemma writeVarLength_0: "writeVarLength bytes 0 = bytes @ [0]"
  by (simp add: writeVarLength_def bitAnd_def shiftRight_def toInt32_def varLengthLoop_done)

lemma writeVarLength_append: "writeVarLength bytes v = bytes @ writeVarLength [] v"
  by (simp add: writeVarLength_def Let_def)

lemma fold_encode:
  "fold (\<lambda>event bytes. writeVarLength bytes (deltaTime event) @ data event) events acc
     = acc @ concat (map (\<lambda>event. writeVarLength [] (deltaTime event) @ data event) events)"
proof (induction events arbitrary: acc)
  case Nil
  then show ?case by simp
next
  case (Cons e es)
  have "writeVarLength acc (deltaTime e) = acc @ writeVarLength [] (deltaTime e)"
    by (rule writeVarLength_append)
  then show ?case
    by (simp add: Cons.IH)
qed

lemma encodeTrackEvents_concat:
  "encodeTrackEvents events
     = concat (map (\<lambda>event. map toUint8 (writeVarLength [] (deltaTime event) @ data event)) events)"
  by (simp add: encodeTrackEvents_def fold_encode map_concat comp_def)

lemma encodeTrackEvents_endOfTrack:
  "encodeTrackEvents (events @ [endOfTrack]) = encodeTrackEvents events @ [0, 0xFF, 0x2F, 0x00]"
  by (simp add: encodeTrackEvents_concat endOfTrack_def writeVarLength_0 toUint8_def)

lemma encodeTrackEvents_tempoTrack:
  "encodeTrackEvents (tempoTrack tempo) =
     [0, 0xFF, 0x51, 0x03,
      (Math_round (60000000 / tempo) div 65536) mod 256,
      (Math_round (60000000 / tempo) div 256) mod 256,
      Math_round (60000000 / tempo) mod 256,
      0, 0xFF, 0x2F, 0x00]"
  using byte_of_shift [of 16 "Math_round (60000000 / tempo)"]
    byte_of_shift [of 8 "Math_round (60000000 / tempo)"]
    shiftRight_0 [of "Math_round (60000000 / tempo)"]
  by (simp add: encodeTrackEvents_concat tempoTrack_def endOfTrack_def writeVarLength_0
      toUint8_def Let_def)

lemma butlast_noteTrack:
  "noteTrack cs bd tempo = butlast (noteTrack cs bd tempo) @ [endOfTrack]"
  by (simp add: noteTrack_def Let_def)

lemma createHeaderChunk_2:
  "createHeaderChunk 2 = [0x4D, 0x54, 0x68, 0x64, 0, 0, 0, 6, 0, 1, 0, 2, 0x01, 0xE0]"
  by (simp add: createHeaderChunk_def setUint32_def setUint16_def ppq_def)


lemma generatePythagoreanMIDI_bytes:
  "generatePythagoreanMIDI cs bd tempo =
     [0x4D, 0x54, 0x68, 0x64, 0, 0, 0, 6, 0, 1, 0, 2, 0x01, 0xE0]
     @ [0x4D, 0x54, 0x72, 0x6B, 0, 0, 0, 11]
     @ [0, 0xFF, 0x51, 0x03,
        (Math_round (60000000 / tempo) div 65536) mod 256,
        (Math_round (60000000 / tempo) div 256) mod 256,
        Math_round (60000000 / tempo) mod 256]
     @ [0, 0xFF, 0x2F, 0x00]
     @ [0x4D, 0x54, 0x72, 0x6B]
     @ setUint32 (int (length (encodeTrackEvents (butlast (noteTrack cs bd tempo)))) + 4)
     @ encodeTrackEvents (butlast (noteTrack cs bd tempo)) @ [0, 0xFF, 0x2F, 0x00]"
proof -
  have n: "encodeTrackEvents (noteTrack cs bd tempo)
      = encodeTrackEvents (butlast (noteTrack cs bd tempo)) @ [0, 0xFF, 0x2F, 0x00]"
    by (subst butlast_noteTrack) (rule encodeTrackEvents_endOfTrack)
  have h: "createHeaderChunk (length [tempoTrack tempo, noteTrack cs bd tempo])
      = [0x4D, 0x54, 0x68, 0x64, 0, 0, 0, 6, 0, 1, 0, 2, 0x01, 0xE0]"
    by (simp add: createHeaderChunk_def setUint32_def setUint16_def ppq_def)
  have c0: "createTrackChunk (tempoTrack tempo)
      = [0x4D, 0x54, 0x72, 0x6B, 0, 0, 0, 11]
        @ [0, 0xFF, 0x51, 0x03,
           (Math_round (60000000 / tempo) div 65536) mod 256,
           (Math_round (60000000 / tempo) div 256) mod 256,
           Math_round (60000000 / tempo) mod 256]
        @ [0, 0xFF, 0x2F, 0x00]"
    unfolding createTrackChunk_def encodeTrackEvents_tempoTrack Let_def
    by (simp add: setUint32_def)
  have c1: "createTrackChunk (noteTrack cs bd tempo)
      = [0x4D, 0x54, 0x72, 0x6B]
        @ setUint32 (int (length (encodeTrackEvents (butlast (noteTrack cs bd tempo)))) + 4)
        @ encodeTrackEvents (butlast (noteTrack cs bd tempo)) @ [0, 0xFF, 0x2F, 0x00]"
    unfolding createTrackChunk_def n Let_def by (simp add: add.commute)
  show ?thesis
    unfolding generatePythagoreanMIDI_def createMIDIFile_def h
    by (simp only: list.map concat.simps c0 c1 append_Nil2 append_assoc)
qed

text \<open>
  Claim C6, as amended. Every buffer returned by \<open>generatePythagoreanMIDI\<close> is the
  header \<open>4D 54 68 64 00 00 00 06 00 01 00 02 01 E0\<close>, the chunk of track 0 and the
  chunk of track 1. Track 0 is the tempo meta-event \<open>FF 51 03\<close> with three data bytes
  and then end-of-track; the event stream of each track ends with \<open>FF 2F 00\<close>. With
  \<open>m = round (60000000 / tempo)\<close>, the three data bytes are the big-endian form of
  \<open>m mod 2 ^ 24\<close>: they are the big-endian value of \<open>m\<close> itself whenever
  \<open>0 \<le> m < 2 ^ 24\<close>.
\<close>

theorem generatePythagoreanMIDI_layout:
  "(let m = Math_round (60000000 / tempo);
        b2 = bitAnd (shiftRight m 16) 0xFF;
        b1 = bitAnd (shiftRight m 8) 0xFF;
        b0 = bitAnd m 0xFF;
        events = encodeTrackEvents (butlast (noteTrack cs bd tempo))
    in generatePythagoreanMIDI cs bd tempo =
         [0x4D, 0x54, 0x68, 0x64, 0, 0, 0, 6, 0, 1, 0, 2, 0x01, 0xE0]
         @ [0x4D, 0x54, 0x72, 0x6B, 0, 0, 0, 11]
         @ [0, 0xFF, 0x51, 0x03, b2, b1, b0] @ [0, 0xFF, 0x2F, 0x00]
         @ [0x4D, 0x54, 0x72, 0x6B] @ setUint32 (int (length events) + 4)
         @ events @ [0, 0xFF, 0x2F, 0x00]
       \<and> 0 \<le> b2 \<and> b2 \<le> 255 \<and> 0 \<le> b1 \<and> b1 \<le> 255 \<and> 0 \<le> b0 \<and> b0 \<le> 255
       \<and> b2 * 65536 + b1 * 256 + b0 = m mod 16777216
       \<and> (0 \<le> m \<and> m < 16777216 \<longrightarrow> b2 * 65536 + b1 * 256 + b0 = m))"
proof -
  define m where "m = Math_round (60000000 / tempo)"
  have b2: "bitAnd (shiftRight m 16) 0xFF = (m div 65536) mod 256"
    using byte_of_shift [of 16 m] by simp
  have b1: "bitAnd (shiftRight m 8) 0xFF = (m div 256) mod 256"
    using byte_of_shift [of 8 m] by simp
  have b0: "bitAnd m 0xFF = m mod 256"
    by (rule shiftRight_0)
  have r: "0 \<le> x mod 256 \<and> x mod 256 \<le> 255" for x :: int
    using pos_mod_bound [of 256 x] by simp
  have t: "(m div 65536) mod 256 * 65536 + (m div 256) mod 256 * 256 + m mod 256 = m mod 16777216"
    by (rule three_bytes)
  have i: "m mod 16777216 = m" if "0 \<le> m \<and> m < 16777216"
    using that by simp
  show ?thesis
    unfolding Let_def m_def [symmetric] b2 b1 b0
  proof (intro conjI impI)
    show "generatePythagoreanMIDI cs bd tempo =
         [0x4D, 0x54, 0x68, 0x64, 0, 0, 0, 6, 0, 1, 0, 2, 0x01, 0xE0]
         @ [0x4D, 0x54, 0x72, 0x6B, 0, 0, 0, 11]
         @ [0, 0xFF, 0x51, 0x03, (m div 65536) mod 256, (m div 256) mod 256, m mod 256]
         @ [0, 0xFF, 0x2F, 0x00]
         @ [0x4D, 0x54, 0x72, 0x6B]
         @ setUint32 (int (length (encodeTrackEvents (butlast (noteTrack cs bd tempo)))) + 4)
         @ encodeTrackEvents (butlast (noteTrack cs bd tempo)) @ [0, 0xFF, 0x2F, 0x00]"
      unfolding m_def by (rule generatePythagoreanMIDI_bytes)
    show "0 \<le> (m div 65536) mod 256" "(m div 65536) mod 256 \<le> 255"
      using r [of "m div 65536"] by blast+
    show "0 \<le> (m div 256) mod 256" "(m div 256) mod 256 \<le> 255"
      using r [of "m div 256"] by blast+
    show "0 \<le> m mod 256" "m mod 256 \<le> 255"
      using r [of m] by blast+
    show "(m div 65536) mod 256 * 65536 + (m div 256) mod 256 * 256 + m mod 256 = m mod 16777216"
      by (rule t)
    assume "0 \<le> m \<and> m < 16777216"
    then show "(m div 65536) mod 256 * 65536 + (m div 256) mod 256 * 256 + m mod 256 = m"
      unfolding t by (rule i)
  qed
qed


lemma noteTrack_empty: "encodeTrackEvents (butlast (noteTrack [] bd tempo)) = []"
  by (simp add: noteTrack_def forEach_def encodeTrackEvents_def)

theorem generatePythagoreanMIDI_layout_witness:
  "(0::int) \<le> Math_round (60000000 / 120) \<and> Math_round (60000000 / 120) < 16777216
   \<and> Math_round (60000000 / 120) = 500000
   \<and> bitAnd (shiftRight 500000 16) 0xFF * 65536 + bitAnd (shiftRight 500000 8) 0xFF * 256
       + bitAnd 500000 0xFF = 500000
   \<and> generatePythagoreanMIDI [] 1 120 =
       [0x4D, 0x54, 0x68, 0x64, 0, 0, 0, 6, 0, 1, 0, 2, 0x01, 0xE0,
        0x4D, 0x54, 0x72, 0x6B, 0, 0, 0, 11,
        0, 0xFF, 0x51, 0x03, 0x07, 0xA1, 0x20, 0, 0xFF, 0x2F, 0x00,
        0x4D, 0x54, 0x72, 0x6B, 0, 0, 0, 4, 0, 0xFF, 0x2F, 0x00]"
proof -
  have m: "Math_round (60000000 / 120) = 500000"
    by (simp add: Math_round_def)
  have b: "bitAnd (shiftRight 500000 16) 0xFF = 7" "bitAnd (shiftRight 500000 8) 0xFF = 161"
    "bitAnd 500000 0xFF = 32"
    using byte_of_shift [of 16 500000] byte_of_shift [of 8 500000] shiftRight_0 [of 500000]
    by simp_all
  have l: "setUint32 (int (length ([]::int list)) + 4) = [0, 0, 0, 4]"
    by (simp add: setUint32_def)
  from generatePythagoreanMIDI_layout [of 120 "[]" 1]
  have "generatePythagoreanMIDI [] 1 120 =
       [0x4D, 0x54, 0x68, 0x64, 0, 0, 0, 6, 0, 1, 0, 2, 0x01, 0xE0]
         @ [0x4D, 0x54, 0x72, 0x6B, 0, 0, 0, 11]
         @ [0, 0xFF, 0x51, 0x03, 7, 161, 32] @ [0, 0xFF, 0x2F, 0x00]
         @ [0x4D, 0x54, 0x72, 0x6B] @ [0, 0, 0, 4]
         @ [] @ [0, 0xFF, 0x2F, 0x00]
     \<and> (7::int) * 65536 + 161 * 256 + 32 = 500000"
    unfolding Let_def m b noteTrack_empty l by simp
  with m b show ?thesis by simp
qed

text \<open>
  Claim C6, as stated, takes the three tempo bytes to be the big-endian value of
  \<open>round (60000000 / tempo)\<close> for every buffer. At tempo 1 that value is 60000000,
  which three bytes cannot hold; the bytes written are \<open>93 87 00\<close>, the value 9668352.
\<close>

theorem generatePythagoreanMIDI_tempo_counterexample:
  "generatePythagoreanMIDI [] 1 1 =
     [0x4D, 0x54, 0x68, 0x64, 0, 0, 0, 6, 0, 1, 0, 2, 0x01, 0xE0,
      0x4D, 0x54, 0x72, 0x6B, 0, 0, 0, 11,
      0, 0xFF, 0x51, 0x03, 0x93, 0x87, 0x00, 0, 0xFF, 0x2F, 0x00,
      0x4D, 0x54, 0x72, 0x6B, 0, 0, 0, 4, 0, 0xFF, 0x2F, 0x00]
   \<and> Math_round (60000000 / 1) = 60000000
   \<and> (0x93 * 65536 + 0x87 * 256 + 0x00 :: int) \<noteq> 60000000"
proof -
  have m: "Math_round (60000000 / 1) = 60000000"
    by (simp add: Math_round_def)
  have d: "(60000000 div 65536) mod 256 = (147::int)" "(60000000 div 256) mod 256 = (135::int)"
    "60000000 mod 256 = (0::int)"
    by simp_all
  have l: "setUint32 (int (length ([]::int list)) + 4) = [0, 0, 0, 4]"
    by (simp add: setUint32_def)
  have "generatePythagoreanMIDI [] 1 1 =
       [0x4D, 0x54, 0x68, 0x64, 0, 0, 0, 6, 0, 1, 0, 2, 0x01, 0xE0]
         @ [0x4D, 0x54, 0x72, 0x6B, 0, 0, 0, 11]
         @ [0, 0xFF, 0x51, 0x03, 147, 135, 0] @ [0, 0xFF, 0x2F, 0x00]
         @ [0x4D, 0x54, 0x72, 0x6B] @ [0, 0, 0, 4]
         @ [] @ [0, 0xFF, 0x2F, 0x00]"
    using generatePythagoreanMIDI_bytes [of "[]" 1 1]
    unfolding m d noteTrack_empty l .
  with m show ?thesis by simp
qed

end
